theory Spec2Isabelle
  imports Main "HOL-Library.Word"
begin

unbundle bit_operations_syntax

section \<open>Outcomes of a run\<close>

text \<open>
  The source is C++ without bounds checks. Every function of the model returns an
  outcome: \<open>Ok v\<close> when the source returns \<open>v\<close>, \<open>Abort\<close> when an \<open>assert\<close> of the
  source fails, and \<open>Undef\<close> where the source's behaviour is undefined (a read outside
  an allocation, \<open>back()\<close> or \<open>pop_back()\<close> on an empty vector, \<open>args[0]\<close> of an empty
  vector, the use of an uninitialised \<open>oparg\<close>).

  The text that \<open>log\<close> and \<open>printf\<close> write is not modelled, but every read that the
  diagnostic code makes through a handle or a pointer is: the accessor calls and the
  \<open>%s\<close> arguments of \<open>log\<close>, \<open>DebugString\<close>, \<open>DebugHandleArray\<close> and the second loop of
  \<open>Load\<close> return \<open>Ok ()\<close> when their reads are inside the memory of the heap and
  \<open>Undef\<close> otherwise. Two things are left out: the name of the opcode, printed from
  the table \<open>kOpcodeNames\<close> of \<open>opcode.h\<close>, which is not among the sources, and the
  value of the integer that \<open>DebugString\<close> prints after \<open>AsInt\<close>.
\<close>

datatype 'a outcome = Ok 'a | Abort | Undef

definition and_then :: "'a outcome \<Rightarrow> ('a \<Rightarrow> 'b outcome) \<Rightarrow> 'b outcome" where
  "and_then r f = (case r of Ok v \<Rightarrow> f v | Abort \<Rightarrow> Abort | Undef \<Rightarrow> Undef)"

section \<open>Data model\<close>

definition bytes_of :: "string \<Rightarrow> 8 word list" where
  "bytes_of s = map of_char s"

type_synonym byte = "8 word"

type_synonym Handle = "32 word"

datatype Why = Why_Not | Why_Exception | Why_Reraise | Why_Return | Why_Break
  | Why_Continue | Why_Yield

definition TAG_NONE :: int where "TAG_NONE = - 1"
definition TAG_BOOL :: int where "TAG_BOOL = - 2"
definition TAG_INT :: int where "TAG_INT = - 3"
definition TAG_FLOAT :: int where "TAG_FLOAT = - 4"
definition TAG_STR :: int where "TAG_STR = - 5"
definition TAG_TUPLE :: int where "TAG_TUPLE = - 6"
definition TAG_CODE :: int where "TAG_CODE = - 7"

text \<open>
  \<open>struct Cell\<close>, 16 bytes: \<open>tag\<close> (bytes 0-1), \<open>is_slab\<close> (byte 2), \<open>small_len\<close>
  (byte 3) and the twelve bytes that follow, \<open>small_val\<close>. The second union of the
  struct (\<open>slab_wire\<close>, \<open>ptr\<close>, \<open>i\<close>, \<open>d\<close>) overlays bytes 8-15 of the cell, that is
  bytes 4-11 of \<open>small_val\<close>; its members are read off those bytes, little-endian.
\<close>

record Cell =
  tag :: "16 word"
  is_slab :: byte
  small_len :: byte
  small_val :: "byte list"

text \<open>The unsigned value of a little-endian byte sequence, and its inverse.\<close>

fun le_uint :: "byte list \<Rightarrow> int" where
  "le_uint [] = 0"
| "le_uint (b # bs) = uint b + 256 * le_uint bs"

fun le_bytes :: "nat \<Rightarrow> int \<Rightarrow> byte list" where
  "le_bytes 0 v = []"
| "le_bytes (Suc n) v = word_of_int (v mod 256) # le_bytes n (v div 256)"

definition slab_wire_offset :: "Cell \<Rightarrow> 32 word" where
  "slab_wire_offset c = word_of_int (le_uint (take 4 (drop 8 (small_val c))))"

definition Cell_ptr :: "Cell \<Rightarrow> 64 word" where
  "Cell_ptr c = word_of_int (le_uint (take 8 (drop 4 (small_val c))))"

definition Cell_i :: "Cell \<Rightarrow> 64 word" where
  "Cell_i c = word_of_int (le_uint (take 8 (drop 4 (small_val c))))"

text \<open>
  A data pointer is either an address (a pointer into the slab region when it lies
  inside it) or the address of a byte of the \<open>small_val\<close> of the cell with a given
  index.
\<close>

datatype pointer = Absolute "64 word" | SmallVal nat int

fun ptr_add :: "pointer \<Rightarrow> int \<Rightarrow> pointer" where
  "ptr_add (Absolute a) k = Absolute (a + of_int k)"
| "ptr_add (SmallVal c off) k = SmallVal c (off + k)"

record Str =
  len :: "32 word"
  data :: pointer

record Tuple =
  len :: "32 word"
  handles :: pointer

text \<open>
  \<open>class OHeap\<close>: \<open>slabs\<close> (the member \<open>slabs_\<close>) is the address of the slab region and
  \<open>slabs_mem\<close> the bytes allocated there; \<open>cells\<close> (\<open>cells_\<close>) is the cell table and
  \<open>num_cells\<close> is \<open>num_cells_\<close>.
\<close>

record OHeap =
  slabs :: "64 word"
  slabs_mem :: "byte list"
  num_cells :: int
  cells :: "Cell list"

section \<open>Memory reads\<close>

text \<open>
  \<open>region heap p\<close> is the memory from \<open>p\<close> to the end of its allocation: the rest of the
  slab region for an address inside it, the rest of the twelve bytes for a pointer
  into a \<open>small_val\<close>. A read must stay inside it; \<open>c_str\<close> reads up to the first NUL.
\<close>

definition region :: "OHeap \<Rightarrow> pointer \<Rightarrow> byte list outcome" where
  "region heap p = (case p of
     Absolute a \<Rightarrow>
       (let off = unat (a - slabs heap)
        in if off \<le> length (slabs_mem heap) then Ok (drop off (slabs_mem heap)) else Undef)
   | SmallVal c off \<Rightarrow>
       (if c < length (cells heap) \<and> 0 \<le> off \<and> nat off \<le> length (small_val (cells heap ! c))
        then Ok (drop (nat off) (small_val (cells heap ! c))) else Undef))"

definition read_bytes :: "OHeap \<Rightarrow> pointer \<Rightarrow> nat \<Rightarrow> byte list outcome" where
  "read_bytes heap p n =
     (if n = 0 then Ok []
      else and_then (region heap p) (\<lambda>bs. if n \<le> length bs then Ok (take n bs) else Undef))"

definition read_int32 :: "OHeap \<Rightarrow> pointer \<Rightarrow> 32 word outcome" where
  "read_int32 heap p = and_then (read_bytes heap p 4) (\<lambda>bs. Ok (word_of_int (le_uint bs)))"

fun c_str :: "byte list \<Rightarrow> byte list outcome" where
  "c_str [] = Undef"
| "c_str (b # bs) = (if b = 0 then Ok [] else and_then (c_str bs) (\<lambda>s. Ok (b # s)))"

definition read_c_str :: "OHeap \<Rightarrow> pointer \<Rightarrow> byte list outcome" where
  "read_c_str heap p = and_then (region heap p) c_str"

definition cell_at :: "OHeap \<Rightarrow> Handle \<Rightarrow> Cell outcome" where
  "cell_at heap h =
     (if 0 \<le> sint h \<and> nat (sint h) < length (cells heap)
      then Ok (cells heap ! nat (sint h)) else Undef)"

section \<open>OHeap accessors\<close>

text \<open>
  \<open>view\<close> is the branch on \<open>is_slab\<close> that \<open>OHeap::AsStr\<close>, \<open>Code::AsStr\<close> and
  \<open>Code::AsTuple\<close> each spell out: the length and the data of a slab-backed cell are the
  32-bit length at \<open>ptr\<close> and the bytes after it; those of an inline cell are
  \<open>small_len\<close> and \<open>small_val\<close>.
\<close>

definition view :: "OHeap \<Rightarrow> Handle \<Rightarrow> Cell \<Rightarrow> (32 word \<times> pointer) outcome" where
  "view heap h cell =
     (if is_slab cell \<noteq> 0
      then and_then (read_int32 heap (Absolute (Cell_ptr cell)))
             (\<lambda>n. Ok (n, Absolute (Cell_ptr cell + 4)))
      else Ok (ucast (small_len cell), SmallVal (nat (sint h)) 0))"

definition OHeap_AsStr0 :: "OHeap \<Rightarrow> Handle \<Rightarrow> pointer option outcome" where
  "OHeap_AsStr0 heap h =
     and_then (cell_at heap h) (\<lambda>cell.
       if sint (tag cell) \<noteq> TAG_STR then Ok None
       else if is_slab cell \<noteq> 0 then Ok (Some (Absolute (Cell_ptr cell + 4)))
       else Ok (Some (SmallVal (nat (sint h)) 0)))"

definition OHeap_AsStr :: "OHeap \<Rightarrow> Handle \<Rightarrow> Str option outcome" where
  "OHeap_AsStr heap h =
     and_then (cell_at heap h) (\<lambda>cell.
       if sint (tag cell) \<noteq> TAG_STR then Ok None
       else and_then (view heap h cell) (\<lambda>(n, p). Ok (Some \<lparr>Str.len = n, data = p\<rparr>)))"

definition OHeap_AsInt :: "OHeap \<Rightarrow> Handle \<Rightarrow> 64 word option outcome" where
  "OHeap_AsInt heap h =
     and_then (cell_at heap h) (\<lambda>cell.
       if sint (tag cell) \<noteq> TAG_STR then Ok None
       else Ok (Some (Cell_i cell)))"

text \<open>
  \<open>TagDebugString\<close> indexes the table \<open>kTagDebugString\<close>, of eight entries, with
  \<open>-tag\<close>. \<open>OHeap::DebugString\<close> reads the cell, and for a string prints it with \<open>%s\<close>,
  reading up to its NUL. \<open>VM::DebugHandleArray\<close> prints the name of the tag of every
  handle that is not negative.
\<close>

definition TagDebugString :: "int \<Rightarrow> unit outcome" where
  "TagDebugString t = (if 0 \<le> - t \<and> - t < 8 then Ok () else Undef)"

definition OHeap_DebugString :: "OHeap \<Rightarrow> Handle \<Rightarrow> unit outcome" where
  "OHeap_DebugString heap h =
     and_then (cell_at heap h) (\<lambda>cell.
       if sint (tag cell) = TAG_NONE then Ok ()
       else if sint (tag cell) = TAG_BOOL then Ok ()
       else if sint (tag cell) = TAG_INT then and_then (OHeap_AsInt heap h) (\<lambda>_. Ok ())
       else if sint (tag cell) = TAG_FLOAT then Ok ()
       else if sint (tag cell) = TAG_STR then
         and_then (OHeap_AsStr0 heap h) (\<lambda>r.
           case r of
             None \<Rightarrow> Undef
           | Some p \<Rightarrow> and_then (read_c_str heap p) (\<lambda>_. Ok ()))
       else TagDebugString (sint (tag cell)))"

fun DebugHandleArray :: "OHeap \<Rightarrow> Handle list \<Rightarrow> unit outcome" where
  "DebugHandleArray heap [] = Ok ()"
| "DebugHandleArray heap (h # hs) =
     (if sint h < 0 then DebugHandleArray heap hs
      else and_then (cell_at heap h) (\<lambda>cell.
             and_then (TagDebugString (sint (tag cell))) (\<lambda>_. DebugHandleArray heap hs)))"

section \<open>Code view\<close>

text \<open>
  \<open>class Code\<close> holds \<open>cells_\<close> and \<open>self_ = cells + self\<close>; the model keeps the handle
  \<open>self\<close>. A field access reads \<open>slab[field_index]\<close> through \<open>self_->ptr\<close> and then
  asserts the tag of the cell it names.
\<close>

definition Code_slab :: "OHeap \<Rightarrow> Handle \<Rightarrow> int \<Rightarrow> Handle outcome" where
  "Code_slab heap self field_index =
     and_then (cell_at heap self) (\<lambda>c.
       read_int32 heap (ptr_add (Absolute (Cell_ptr c)) (4 * field_index)))"

definition Code_AsInt :: "OHeap \<Rightarrow> Handle \<Rightarrow> int \<Rightarrow> 64 word outcome" where
  "Code_AsInt heap self field_index =
     and_then (Code_slab heap self field_index) (\<lambda>h.
       and_then (cell_at heap h) (\<lambda>cell.
         if sint (tag cell) \<noteq> TAG_INT then Abort else Ok (Cell_i cell)))"

definition Code_AsStr :: "OHeap \<Rightarrow> Handle \<Rightarrow> int \<Rightarrow> Str outcome" where
  "Code_AsStr heap self field_index =
     and_then (Code_slab heap self field_index) (\<lambda>h.
       and_then (cell_at heap h) (\<lambda>cell.
         if sint (tag cell) \<noteq> TAG_STR then Abort
         else and_then (view heap h cell) (\<lambda>(n, p). Ok \<lparr>Str.len = n, data = p\<rparr>)))"

definition Code_AsTuple :: "OHeap \<Rightarrow> Handle \<Rightarrow> int \<Rightarrow> Tuple outcome" where
  "Code_AsTuple heap self field_index =
     and_then (Code_slab heap self field_index) (\<lambda>h.
       and_then (cell_at heap h) (\<lambda>cell.
         if sint (tag cell) \<noteq> TAG_TUPLE then Abort
         else and_then (view heap h cell) (\<lambda>(n, p). Ok \<lparr>Tuple.len = n, handles = p\<rparr>)))"

definition OHeap_AsCode :: "OHeap \<Rightarrow> Handle \<Rightarrow> Handle outcome" where
  "OHeap_AsCode heap h =
     and_then (cell_at heap h) (\<lambda>cell.
       if sint (tag cell) \<noteq> TAG_CODE then Abort else Ok h)"

definition OHeap_Last :: "OHeap \<Rightarrow> Handle" where
  "OHeap_Last heap = of_int (num_cells heap - 1)"

section \<open>The native function\<close>

definition func_print ::
  "OHeap \<Rightarrow> Handle list \<Rightarrow> Handle list \<Rightarrow> byte list \<Rightarrow> (Why \<times> Handle list \<times> byte list) outcome" where
  "func_print heap args rets stdout =
     (case args of
        [] \<Rightarrow> Undef
      | a0 # _ \<Rightarrow>
          and_then (OHeap_AsStr heap a0) (\<lambda>r.
            case r of
              None \<Rightarrow> Ok (Why_Exception, rets, stdout)
            | Some s \<Rightarrow>
                if sint (Str.len s) < 0 then Undef
                else and_then (read_bytes heap (data s) (nat (sint (Str.len s)))) (\<lambda>bs.
                       Ok (Why_Not, rets @ [0], stdout @ bs @ [10, 10]))))"

section \<open>Frame\<close>

datatype BlockType = Loop | Except | Finally | With

record Block =
  type :: BlockType
  level :: int
  handler :: int

text \<open>
  \<open>class Frame\<close>. \<open>locals\<close> is the member \<open>locals_\<close>, an \<open>unordered_map\<close> whose keys are
  compared with \<open>strcmp\<close>: an association from NUL-terminated names to handles. The
  heap reference \<open>heap_\<close> is passed to the operations.
\<close>

record Frame =
  co :: Handle
  value_stack :: "Handle list"
  block_stack :: "Block list"
  locals :: "(byte list \<times> Handle) list"

definition Frame_new :: "Handle \<Rightarrow> Frame" where
  "Frame_new c = \<lparr>co = c, value_stack = [], block_stack = [], locals = []\<rparr>"

definition Frame_LoadName :: "OHeap \<Rightarrow> Frame \<Rightarrow> Handle \<Rightarrow> Handle outcome" where
  "Frame_LoadName heap fr h =
     and_then (OHeap_AsStr0 heap h) (\<lambda>r.
       case r of
         None \<Rightarrow> Abort
       | Some p \<Rightarrow>
           and_then (read_c_str heap p) (\<lambda>name.
             case map_of (locals fr) name of
               Some v \<Rightarrow> Ok v
             | None \<Rightarrow> if name = bytes_of ''print'' then Ok (- 1) else Ok 0))"

section \<open>Interpreter loop\<close>

text \<open>
  \<open>opcode.h\<close> is not among the sources: its constants are parameters of the model,
  together with the one property of the C++ implementation that the loop depends on,
  whether plain \<open>char\<close> is signed (the bytecode is read through \<open>const char*\<close>).
\<close>

record build =
  HAVE_ARGUMENT :: int
  LOAD_CONST :: int
  LOAD_NAME :: int
  POP_TOP :: int
  CALL_FUNCTION :: int
  RETURN_VALUE :: int
  char_signed :: bool

definition char_val :: "build \<Rightarrow> byte \<Rightarrow> int" where
  "char_val b c = (if char_signed b then sint c else uint c)"

definition read_char :: "OHeap \<Rightarrow> pointer \<Rightarrow> int \<Rightarrow> byte outcome" where
  "read_char heap p i =
     and_then (read_bytes heap (ptr_add p i) 1) (\<lambda>bs.
       case bs of [] \<Rightarrow> Undef | c # _ \<Rightarrow> Ok c)"

text \<open>
  Fetch and decode, the head of the loop body: the opcode, the operand (\<open>None\<close> while
  \<open>oparg\<close> is uninitialised) and the cursor after the instruction.
\<close>

definition fetch :: "build \<Rightarrow> OHeap \<Rightarrow> pointer \<Rightarrow> int \<Rightarrow> (byte \<times> int option \<times> int) outcome" where
  "fetch b heap bytecode i =
     and_then (read_char heap bytecode i) (\<lambda>op.
       if HAVE_ARGUMENT b \<le> uint op
       then and_then (read_char heap bytecode (i + 1)) (\<lambda>lo.
              and_then (read_char heap bytecode (i + 2)) (\<lambda>hi.
                Ok (op, Some (char_val b lo + char_val b hi * 256), i + 3)))
       else Ok (op, None, i + 1))"

text \<open>The variables that the loop body changes: \<open>why\<close>, the frame and standard output.\<close>

record state =
  why :: Why
  frame :: Frame
  out :: "byte list"

definition push :: "Handle \<Rightarrow> state \<Rightarrow> state" where
  "push h s = s\<lparr>frame := (frame s)\<lparr>value_stack := value_stack (frame s) @ [h]\<rparr>\<rparr>"

definition set_stack :: "Handle list \<Rightarrow> state \<Rightarrow> state" where
  "set_stack st s = s\<lparr>frame := (frame s)\<lparr>value_stack := st\<rparr>\<rparr>"

fun pop_args :: "nat \<Rightarrow> Handle list \<Rightarrow> Handle list \<Rightarrow> (Handle list \<times> Handle list) outcome" where
  "pop_args 0 st args = Ok (st, args)"
| "pop_args (Suc k) st args =
     (if st = [] then Undef else pop_args k (butlast st) (args @ [last st]))"

definition call_function :: "OHeap \<Rightarrow> int \<Rightarrow> state \<Rightarrow> state outcome" where
  "call_function heap oparg s =
     (let num_args = oparg AND 0xff;
          num_kwargs = drop_bit 8 oparg AND 0xff
      in and_then (DebugHandleArray heap (value_stack (frame s))) (\<lambda>_.
         and_then (pop_args (nat num_args) (value_stack (frame s)) []) (\<lambda>(st, args).
         and_then (DebugHandleArray heap args) (\<lambda>_.
         and_then (DebugHandleArray heap st) (\<lambda>_.
           if st = [] then Undef
           else
             let func_handle = last st; st' = butlast st
             in if sint func_handle < 0
                then and_then (func_print heap args [] (out s)) (\<lambda>(w, rets, out').
                       if w \<noteq> Why_Not
                       then Ok (set_stack st' (s\<lparr>why := w, out := out'\<rparr>))
                       else if length rets \<noteq> 1 then Abort
                       else Ok (set_stack (st' @ [rets ! 0]) (s\<lparr>why := w, out := out'\<rparr>)))
                else Ok (set_stack (st' @ [0]) s))))))"

text \<open>
  The \<open>switch\<close>. Its case labels are distinct constants, so the chain below takes the
  same branch; an opcode without a case falls through the \<open>switch\<close> unchanged.
\<close>

definition exec :: "build \<Rightarrow> OHeap \<Rightarrow> Tuple \<Rightarrow> Tuple \<Rightarrow> byte \<Rightarrow> int option \<Rightarrow> state \<Rightarrow> state outcome" where
  "exec b heap names consts op oparg s =
     (if uint op = LOAD_CONST b then
        (case oparg of
           None \<Rightarrow> Undef
         | Some a \<Rightarrow>
             and_then (read_int32 heap (ptr_add (handles consts) (4 * a))) (\<lambda>h. Ok (push h s)))
      else if uint op = LOAD_NAME b then
        (case oparg of
           None \<Rightarrow> Undef
         | Some a \<Rightarrow>
             and_then (read_int32 heap (ptr_add (handles names) (4 * a))) (\<lambda>nh.
               and_then (Frame_LoadName heap (frame s) nh) (\<lambda>h. Ok (push h s))))
      else if uint op = POP_TOP b then
        (if value_stack (frame s) = [] then Undef
         else Ok (set_stack (butlast (value_stack (frame s))) s))
      else if uint op = CALL_FUNCTION b then
        (case oparg of None \<Rightarrow> Undef | Some a \<Rightarrow> call_function heap a s)
      else if uint op = RETURN_VALUE b then Ok (s\<lparr>why := Why_Return\<rparr>)
      else Ok s)"

function run_loop ::
  "build \<Rightarrow> OHeap \<Rightarrow> Tuple \<Rightarrow> Tuple \<Rightarrow> pointer \<Rightarrow> int \<Rightarrow> int \<Rightarrow> state \<Rightarrow> state outcome" where
  "run_loop b heap names consts bytecode num_bytes i s =
     (if i < num_bytes then
        (case fetch b heap bytecode i of
           Ok (op, oparg, i') \<Rightarrow>
             (case exec b heap names consts op oparg s of
                Ok s' \<Rightarrow> run_loop b heap names consts bytecode num_bytes i' s'
              | Abort \<Rightarrow> Abort
              | Undef \<Rightarrow> Undef)
         | Abort \<Rightarrow> Abort
         | Undef \<Rightarrow> Undef)
      else Ok s)"
  by pat_completeness auto
termination
  by (relation "measure (\<lambda>(b, heap, names, consts, bytecode, num_bytes, i, s). nat (num_bytes - i))")
     (auto simp: fetch_def and_then_def split: outcome.splits if_splits)

declare run_loop.simps [simp del]

text \<open>
  The dump of the constants at the start of \<open>RunFrame\<close>: \<open>DebugString\<close> of
  \<open>consts.handles[i]\<close> for \<open>i\<close> from 0 up to \<open>consts.len\<close>.
\<close>

fun debug_consts :: "OHeap \<Rightarrow> pointer \<Rightarrow> nat \<Rightarrow> int \<Rightarrow> unit outcome" where
  "debug_consts heap p 0 i = Ok ()"
| "debug_consts heap p (Suc k) i =
     and_then (read_int32 heap (ptr_add p (4 * i))) (\<lambda>h.
       and_then (OHeap_DebugString heap h) (\<lambda>_. debug_consts heap p k (i + 1)))"

definition RunFrame :: "build \<Rightarrow> OHeap \<Rightarrow> Frame \<Rightarrow> byte list \<Rightarrow> state outcome" where
  "RunFrame b heap fr stdout =
     and_then (Code_AsInt heap (co fr) 1) (\<lambda>_.
     and_then (Code_AsInt heap (co fr) 2) (\<lambda>_.
     and_then (Code_AsInt heap (co fr) 3) (\<lambda>_.
     and_then (Code_AsInt heap (co fr) 4) (\<lambda>_.
     and_then (Code_AsInt heap (co fr) 5) (\<lambda>_.
     and_then (Code_AsStr heap (co fr) 6) (\<lambda>name.
     and_then (read_c_str heap (data name)) (\<lambda>_.
     and_then (Code_AsStr heap (co fr) 7) (\<lambda>filename.
     and_then (read_c_str heap (data filename)) (\<lambda>_.
     and_then (Code_AsStr heap (co fr) 8) (\<lambda>_.
     and_then (Code_AsTuple heap (co fr) 9) (\<lambda>_.
     and_then (Code_AsTuple heap (co fr) 10) (\<lambda>_.
     and_then (Code_AsTuple heap (co fr) 9) (\<lambda>names.
     and_then (Code_AsTuple heap (co fr) 10) (\<lambda>varnames.
     and_then (Code_AsTuple heap (co fr) 11) (\<lambda>consts.
     and_then (debug_consts heap (handles consts) (nat (sint (Tuple.len consts))) 0) (\<lambda>_.
     and_then (Code_AsStr heap (co fr) 8) (\<lambda>code.
       run_loop b heap names consts (data code) (sint (Str.len code)) 0
         \<lparr>why = Why_Not, frame = fr, out = stdout\<rparr>)))))))))))))))))"

text \<open>
  \<open>class VM\<close> and \<open>RunMain\<close>: the frame created for the last cell is appended to the
  call stack and run; the entry of the call stack is the frame that \<open>RunFrame\<close> changes.
  \<open>vm_heap\<close> is the member \<open>heap_\<close>.
\<close>

record VM =
  vm_heap :: OHeap
  call_stack :: "Frame list"

definition RunMain :: "build \<Rightarrow> VM \<Rightarrow> byte list \<Rightarrow> (Why \<times> VM \<times> byte list) outcome" where
  "RunMain b vm stdout =
     and_then (OHeap_AsCode (vm_heap vm) (OHeap_Last (vm_heap vm))) (\<lambda>c.
       and_then (RunFrame b (vm_heap vm) (Frame_new c) stdout) (\<lambda>s.
         Ok (why s, vm\<lparr>call_stack := call_stack vm @ [frame s]\<rparr>, out s)))"

section \<open>Heap loader\<close>

text \<open>
  The file is the list of bytes still to be read. \<open>fread\<close> of one item of \<open>n\<close> bytes
  succeeds when \<open>n\<close> bytes are left. Integers are read in the byte order of the
  machine, little-endian here. \<open>base\<close> is the address that \<open>malloc\<close> returns for the
  slab region. A negative \<open>total_slab_size\<close> or \<open>num_cells\<close> becomes a size near
  \<open>SIZE_MAX\<close> in \<open>malloc\<close> and \<open>fread\<close>, which the model reports as \<open>Undef\<close>.
  \<open>Load\<close> returns \<open>Ok None\<close> where the source returns \<open>false\<close>. After the patching
  loop, the second loop of \<open>Load\<close> reads the 32-bit length at the patched pointer of
  every slab-backed cell (\<open>slab_lens\<close>).
\<close>

definition kHeader :: "byte list" where
  "kHeader = bytes_of ''OHP2''"

definition kHeaderLen :: nat where
  "kHeaderLen = 4"

definition ReadHeader :: "byte list \<Rightarrow> bool \<times> byte list" where
  "ReadHeader f =
     (if length f < kHeaderLen then (False, [])
      else if take kHeaderLen f \<noteq> kHeader then (False, drop kHeaderLen f)
      else (True, drop kHeaderLen f))"

definition parse_cell :: "byte list \<Rightarrow> Cell" where
  "parse_cell bs =
     \<lparr>tag = word_of_int (le_uint (take 2 bs)), is_slab = bs ! 2, small_len = bs ! 3,
      small_val = drop 4 bs\<rparr>"

fun read_cells :: "nat \<Rightarrow> byte list \<Rightarrow> Cell list" where
  "read_cells 0 f = []"
| "read_cells (Suc n) f = parse_cell (take 16 f) # read_cells n (drop 16 f)"

definition set_ptr :: "Cell \<Rightarrow> 64 word \<Rightarrow> Cell" where
  "set_ptr c p =
     c\<lparr>small_val := take 4 (small_val c) @ le_bytes 8 (uint p) @ drop 12 (small_val c)\<rparr>"

fun patch :: "64 word \<Rightarrow> Cell list \<Rightarrow> Cell list" where
  "patch base [] = []"
| "patch base (cell # rest) =
     (if is_slab cell \<noteq> 0
      then set_ptr cell (base + scast (slab_wire_offset cell)) # patch base rest
      else cell # patch base rest)"

fun slab_lens :: "OHeap \<Rightarrow> Cell list \<Rightarrow> unit outcome" where
  "slab_lens heap [] = Ok ()"
| "slab_lens heap (cell # rest) =
     (if is_slab cell \<noteq> 0
      then and_then (read_int32 heap (Absolute (Cell_ptr cell))) (\<lambda>_. slab_lens heap rest)
      else slab_lens heap rest)"

definition Load :: "64 word \<Rightarrow> byte list \<Rightarrow> OHeap option outcome" where
  "Load base f =
     (case ReadHeader f of
        (False, _) \<Rightarrow> Ok None
      | (True, f1) \<Rightarrow>
          if length f1 < 4 then Ok None
          else
            let total_slab_size = sint (word_of_int (le_uint (take 4 f1)) :: 32 word);
                f2 = drop 4 f1
            in if length f2 < 4 then Ok None
               else
                 let n_cells = sint (word_of_int (le_uint (take 4 f2)) :: 32 word);
                     f3 = drop 4 f2
                 in if total_slab_size < 0 then Undef
                    else if int (length f3) < total_slab_size then Ok None
                    else
                      let slab_region = take (nat total_slab_size) f3;
                          f4 = drop (nat total_slab_size) f3
                      in if n_cells < 0 then Undef
                         else if int (length f4 div 16) < n_cells then Ok None
                         else
                           let heap = \<lparr>slabs = base, slabs_mem = slab_region,
                                       num_cells = n_cells,
                                       cells = patch base (read_cells (nat n_cells) f4)\<rparr>
                           in and_then (slab_lens heap (cells heap)) (\<lambda>_. Ok (Some heap)))"

section \<open>Loop states after a number of iterations\<close>

text \<open>
  \<open>iterations k\<close> runs at most \<open>k\<close> iterations of the loop of \<open>RunFrame\<close> from a cursor and
  a state: the states it returns are the states that the loop reaches.
\<close>

fun iterations ::
  "build \<Rightarrow> OHeap \<Rightarrow> Tuple \<Rightarrow> Tuple \<Rightarrow> pointer \<Rightarrow> int \<Rightarrow> nat \<Rightarrow> int \<times> state
     \<Rightarrow> (int \<times> state) outcome" where
  "iterations b heap names consts bytecode num_bytes 0 (i, s) = Ok (i, s)"
| "iterations b heap names consts bytecode num_bytes (Suc k) (i, s) =
     (if i < num_bytes then
        (case fetch b heap bytecode i of
           Ok (op, oparg, i') \<Rightarrow>
             (case exec b heap names consts op oparg s of
                Ok s' \<Rightarrow> iterations b heap names consts bytecode num_bytes k (i', s')
              | Abort \<Rightarrow> Abort
              | Undef \<Rightarrow> Undef)
         | Abort \<Rightarrow> Abort
         | Undef \<Rightarrow> Undef)
      else Ok (i, s))"

section \<open>Example data\<close>

text \<open>
  The parameters of the examples: the opcode numbers of CPython 2.7, the interpreter
  that the source follows, and a signed plain \<open>char\<close>, as on x86-64.
\<close>

definition py27_x86 :: build where
  "py27_x86 = \<lparr>HAVE_ARGUMENT = 90, LOAD_CONST = 100, LOAD_NAME = 101, POP_TOP = 1,
     CALL_FUNCTION = 131, RETURN_VALUE = 83, char_signed = True\<rparr>"

definition inline_cell :: "16 word \<Rightarrow> byte \<Rightarrow> byte list \<Rightarrow> Cell" where
  "inline_cell t n bs =
     \<lparr>tag = t, is_slab = 0, small_len = n, small_val = bs @ replicate (12 - length bs) 0\<rparr>"

definition slab_cell :: "16 word \<Rightarrow> byte list \<Rightarrow> Cell" where
  "slab_cell t p = \<lparr>tag = t, is_slab = 1, small_len = 0, small_val = [0, 0, 0, 0] @ p\<rparr>"

text \<open>
  A heap with one code object, cell 9, whose bytecode is the parameter. The slab
  region is at address 4096: the field table of the code object at offset 0 and the
  string \<open>A\0B\<close> (length 3, with an embedded NUL) at offset 48. Cell 0 is None, cell 1
  the string \<open>hi\<close>, cell 2 the string \<open>print\<close>, cell 3 the integer 7, cell 4 the
  slab-backed string, cell 5 the names \<open>(print, hi)\<close>, cell 6 the constants (cells 1,
  4 and 3), cell 7 the empty tuple of local names and cell 8 the bytecode.
\<close>

definition demo_slabs :: "byte list" where
  "demo_slabs =
     [11, 0, 0, 0,  3, 0, 0, 0,  3, 0, 0, 0,  3, 0, 0, 0,  3, 0, 0, 0,  3, 0, 0, 0,
      1, 0, 0, 0,  1, 0, 0, 0,  8, 0, 0, 0,  5, 0, 0, 0,  7, 0, 0, 0,  6, 0, 0, 0,
      3, 0, 0, 0,  65, 0, 66, 0]"

definition demo_heap :: "byte list \<Rightarrow> OHeap" where
  "demo_heap code =
     \<lparr>slabs = 4096, slabs_mem = demo_slabs, num_cells = 10,
      cells =
        [inline_cell (- 1) 0 [],
         inline_cell (- 5) 2 [104, 105],
         inline_cell (- 5) 5 [112, 114, 105, 110, 116],
         inline_cell (- 3) 0 [0, 0, 0, 0, 7],
         slab_cell (- 5) [48, 16, 0, 0, 0, 0, 0, 0],
         inline_cell (- 6) 2 [2, 0, 0, 0, 1, 0, 0, 0],
         inline_cell (- 6) 3 [1, 0, 0, 0, 4, 0, 0, 0, 3, 0, 0, 0],
         inline_cell (- 6) 0 [],
         inline_cell (- 5) (of_nat (length code)) code,
         slab_cell (- 7) [0, 16, 0, 0, 0, 0, 0, 0]]\<rparr>"

definition demo_names :: Tuple where
  "demo_names = \<lparr>Tuple.len = 2, handles = SmallVal 5 0\<rparr>"

definition demo_consts :: Tuple where
  "demo_consts = \<lparr>Tuple.len = 3, handles = SmallVal 6 0\<rparr>"

definition demo_state :: "Handle list \<Rightarrow> state" where
  "demo_state st =
     \<lparr>why = Why_Not, frame = (Frame_new 9)\<lparr>value_stack := st\<rparr>, out = []\<rparr>"

text \<open>
  A heap image whose only cell is slab-backed with the serialized offset 1000, while
  the slab region has 4 bytes.
\<close>

definition bad_offset_image :: "byte list" where
  "bad_offset_image =
     bytes_of ''OHP2'' @ [4, 0, 0, 0] @ [1, 0, 0, 0] @ [0, 0, 0, 0]
     @ [251, 255, 1, 0,  0, 0, 0, 0,  0, 0, 0, 0,  232, 3, 0, 0]"

text \<open>
  A heap image with a slab region of 12 bytes and one slab-backed Str cell with the
  serialized offset 4, where the slab of the string \<open>A\0B\<close> starts.
\<close>

definition good_image :: "byte list" where
  "good_image =
     bytes_of ''OHP2'' @ [12, 0, 0, 0] @ [1, 0, 0, 0] @ [0, 0, 0, 0, 3, 0, 0, 0, 65, 0, 66, 0]
     @ [251, 255, 1, 0,  0, 0, 0, 0,  0, 0, 0, 0,  4, 0, 0, 0]"

section \<open>Facts about outcomes and reads\<close>

lemma and_then_Ok [simp]: "and_then (Ok v) f = f v"
  by (simp add: and_then_def)

lemma and_then_eq_Ok: "and_then r f = Ok y \<longleftrightarrow> (\<exists>v. r = Ok v \<and> f v = Ok y)"
  by (cases r) (simp_all add: and_then_def)

lemma read_bytes_length: "read_bytes heap p n = Ok bs \<Longrightarrow> length bs = n"
  by (auto simp: read_bytes_def and_then_eq_Ok split: if_splits)

lemma cell_at_Ok:
  assumes "cell_at heap h = Ok c"
  shows "nat (sint h) < length (cells heap) \<and> cells heap ! nat (sint h) = c"
  using assms by (simp add: cell_at_def split: if_splits)

section \<open>Typed accessors\<close>

text \<open>
  On a cell of the table, \<open>OHeap::AsStr\<close> and \<open>OHeap::AsStr0\<close> test the tag against
  \<open>TAG_STR\<close>. \<open>OHeap::AsInt\<close> tests it against \<open>TAG_STR\<close> as well.
\<close>

lemma OHeap_AsStr_false_iff:
  assumes "cell_at heap h = Ok c"
  shows "OHeap_AsStr heap h = Ok None \<longleftrightarrow> sint (tag c) \<noteq> TAG_STR"
  using assms
  by (auto simp: OHeap_AsStr_def and_then_eq_Ok split: prod.splits)

lemma OHeap_AsStr0_Str_iff:
  assumes "cell_at heap h = Ok c"
  shows "(\<exists>p. OHeap_AsStr0 heap h = Ok (Some p)) \<longleftrightarrow> sint (tag c) = TAG_STR"
  using assms by (simp add: OHeap_AsStr0_def)

lemma OHeap_AsInt_true_iff:
  assumes "cell_at heap h = Ok c"
  shows "(\<exists>v. OHeap_AsInt heap h = Ok (Some v)) \<longleftrightarrow> sint (tag c) = TAG_STR"
  using assms by (simp add: OHeap_AsInt_def)

lemma OHeap_AsStr_inline:
  assumes "cell_at heap h = Ok c" and "sint (tag c) = TAG_STR" and "is_slab c = 0"
  shows "OHeap_AsStr heap h =
    Ok (Some \<lparr>Str.len = ucast (small_len c), data = SmallVal (nat (sint h)) 0\<rparr>)"
  using assms by (simp add: OHeap_AsStr_def view_def)

lemma OHeap_AsStr_slab:
  assumes "cell_at heap h = Ok c" and "sint (tag c) = TAG_STR" and "is_slab c \<noteq> 0"
    and "read_int32 heap (Absolute (Cell_ptr c)) = Ok n"
  shows "OHeap_AsStr heap h = Ok (Some \<lparr>Str.len = n, data = Absolute (Cell_ptr c + 4)\<rparr>)"
  using assms by (simp add: OHeap_AsStr_def view_def)

text \<open>
  C4. Each typed accessor should fail exactly when the tag of the cell is not the tag
  it expects. \<open>OHeap::AsStr\<close> does (\<open>OHeap_AsStr_false_iff\<close>); \<open>OHeap::AsInt\<close> does not:
  cell 3 of the example heap carries the Int tag, and \<open>AsInt\<close> returns \<open>false\<close> on it;
  cell 1 carries the Str tag, and \<open>AsInt\<close> returns \<open>true\<close> with the bytes of the string
  as the integer.
\<close>

theorem OHeap_AsInt_rejects_Int_cell:
  "sint (tag (cells (demo_heap []) ! 3)) = TAG_INT \<and> OHeap_AsInt (demo_heap []) 3 = Ok None
   \<and> sint (tag (cells (demo_heap []) ! 1)) = TAG_STR
   \<and> OHeap_AsInt (demo_heap []) 1 = Ok (Some 0)"
  by code_simp

section \<open>The native print function\<close>

text \<open>
  C5, as the code has it. When the first argument handle is the index of a cell of the
  table and the tag of that cell is not Str, \<open>func_print\<close> returns the Exception
  signal, appends nothing to \<open>rets\<close> and writes nothing.
\<close>

theorem func_print_type_mismatch:
  assumes "cell_at heap h = Ok c" and "sint (tag c) \<noteq> TAG_STR"
  shows "func_print heap (h # args) rets stdout = Ok (Why_Exception, rets, stdout)"
  using assms by (simp add: func_print_def OHeap_AsStr_def)

theorem func_print_type_mismatch_witness:
  "cell_at (demo_heap []) 3 = Ok (inline_cell (- 3) 0 [0, 0, 0, 0, 7])
   \<and> sint (tag (inline_cell (- 3) 0 [0, 0, 0, 0, 7])) \<noteq> TAG_STR
   \<and> func_print (demo_heap []) [3] [] [] = Ok (Why_Exception, [], [])"
proof -
  have a: "cell_at (demo_heap []) 3 = Ok (inline_cell (- 3) 0 [0, 0, 0, 0, 7])"
    by code_simp
  have b: "sint (tag (inline_cell (- 3) 0 [0, 0, 0, 0, 7])) \<noteq> TAG_STR"
    by code_simp
  from func_print_type_mismatch [OF a b] a b show ?thesis by simp
qed

text \<open>
  C5, as stated, fails. \<open>LOAD_NAME\<close> of \<open>print\<close> pushes the native sentinel \<open>-1\<close>, so the
  bytecode \<open>LOAD_NAME 0; LOAD_NAME 0; CALL_FUNCTION 1\<close> calls \<open>func_print\<close> with the first
  argument \<open>-1\<close>, which refers to no Str cell. \<open>OHeap::AsStr\<close> reads \<open>cells_[-1]\<close>
  unchecked: the result is a read outside the cell table, not the Exception signal.
  So it is for a handle past the end of the table.
\<close>

theorem func_print_native_handle_undefined:
  "iterations py27_x86 (demo_heap [101, 0, 0, 101, 0, 0, 131, 1, 0]) demo_names demo_consts
      (SmallVal 8 0) 9 2 (0, demo_state []) = Ok (6, demo_state [- 1, - 1])
   \<and> cell_at (demo_heap [101, 0, 0, 101, 0, 0, 131, 1, 0]) (- 1) = Undef
   \<and> func_print (demo_heap [101, 0, 0, 101, 0, 0, 131, 1, 0]) [- 1] [] [] = Undef
   \<and> RunFrame py27_x86 (demo_heap [101, 0, 0, 101, 0, 0, 131, 1, 0]) (Frame_new 9) [] = Undef
   \<and> func_print (demo_heap []) [10] [] [] = Undef"
  by code_simp

text \<open>
  C6. When the argument is a Str cell, with the view \<open>s\<close> that \<open>OHeap::AsStr\<close> gives
  (inline or slab-backed, see \<open>OHeap_AsStr_inline\<close> and \<open>OHeap_AsStr_slab\<close>), and the
  \<open>len\<close> bytes at \<open>s.data\<close> are \<open>bs\<close>, \<open>func_print\<close> writes exactly these \<open>len\<close> bytes,
  whatever their values, followed by the two newlines of \<open>puts("\n")\<close>, and returns
  the Not signal with the one handle 0 appended to \<open>rets\<close>.
\<close>

theorem func_print_writes_len_bytes:
  assumes "OHeap_AsStr heap h = Ok (Some s)"
    and "0 \<le> sint (Str.len s)"
    and "read_bytes heap (data s) (nat (sint (Str.len s))) = Ok bs"
  shows "func_print heap (h # args) rets stdout = Ok (Why_Not, rets @ [0], stdout @ bs @ [10, 10])
    \<and> int (length bs) = sint (Str.len s)"
  using assms read_bytes_length [OF assms(3)] by (simp add: func_print_def)

theorem func_print_writes_len_bytes_witness:
  "OHeap_AsStr (demo_heap []) 4 = Ok (Some \<lparr>Str.len = 3, data = Absolute 4148\<rparr>)
   \<and> read_bytes (demo_heap []) (Absolute 4148) 3 = Ok [65, 0, 66]
   \<and> func_print (demo_heap []) [4] [] [] = Ok (Why_Not, [0], [65, 0, 66, 10, 10])
   \<and> OHeap_AsStr (demo_heap []) 1 = Ok (Some \<lparr>Str.len = 2, data = SmallVal 1 0\<rparr>)
   \<and> read_bytes (demo_heap []) (SmallVal 1 0) 2 = Ok [104, 105]
   \<and> func_print (demo_heap []) [1] [] [] = Ok (Why_Not, [0], [104, 105, 10, 10])"
proof -
  have a: "OHeap_AsStr (demo_heap []) 4 = Ok (Some \<lparr>Str.len = 3, data = Absolute 4148\<rparr>)"
    by code_simp
  have b: "read_bytes (demo_heap []) (data \<lparr>Str.len = 3, data = Absolute 4148\<rparr>)
      (nat (sint (Str.len \<lparr>Str.len = 3, data = Absolute 4148\<rparr>))) = Ok [65, 0, 66]"
    by code_simp
  have c: "OHeap_AsStr (demo_heap []) 1 = Ok (Some \<lparr>Str.len = 2, data = SmallVal 1 0\<rparr>)"
    by code_simp
  have d: "read_bytes (demo_heap []) (data \<lparr>Str.len = 2, data = SmallVal 1 0\<rparr>)
      (nat (sint (Str.len \<lparr>Str.len = 2, data = SmallVal 1 0\<rparr>))) = Ok [104, 105]"
    by code_simp
  from func_print_writes_len_bytes [OF a _ b, of "[]" "[]" "[]"]
    func_print_writes_len_bytes [OF c _ d, of "[]" "[]" "[]"] a b c d
  show ?thesis by simp
qed

text \<open>
  The same at the level of the cell: an inline string is the first \<open>small_len\<close> bytes
  of \<open>small_val\<close>; a slab-backed string is the \<open>n\<close> bytes after the 32-bit length \<open>n\<close>
  that \<open>ptr\<close> points to. A first argument outside the cell table is an unchecked
  array access.
\<close>

lemma func_print_inline:
  assumes "cell_at heap h = Ok c" and "sint (tag c) = TAG_STR" and "is_slab c = 0"
    and "unat (small_len c) \<le> length (small_val c)"
  shows "func_print heap (h # args) rets stdout =
    Ok (Why_Not, rets @ [0], stdout @ take (unat (small_len c)) (small_val c) @ [10, 10])"
proof -
  have u: "uint (ucast (small_len c) :: 32 word) = uint (small_len c)"
    by (rule uint_up_ucast) (simp add: is_up)
  have lo: "- (2 ^ 31) \<le> uint (small_len c)"
    by (rule order_trans [of _ 0]) simp_all
  have hi: "uint (small_len c) < 2 ^ 31"
    using uint_lt2p [of "small_len c"] by simp
  from lo hi have "signed_take_bit 31 (uint (small_len c)) = uint (small_len c)"
    by (rule signed_take_bit_int_eq_self)
  then have s: "sint (ucast (small_len c) :: 32 word) = int (unat (small_len c))"
    using u by (simp add: sint_uint)
  have "read_bytes heap (SmallVal (nat (sint h)) 0) (unat (small_len c))
      = Ok (take (unat (small_len c)) (small_val c))"
    using cell_at_Ok [OF assms(1)] assms(4) by (simp add: read_bytes_def region_def)
  then show ?thesis
    using OHeap_AsStr_inline [OF assms(1-3)] s by (simp add: func_print_def)
qed

lemma func_print_slab:
  assumes "cell_at heap h = Ok c" and "sint (tag c) = TAG_STR" and "is_slab c \<noteq> 0"
    and "read_int32 heap (Absolute (Cell_ptr c)) = Ok n" and "0 \<le> sint n"
    and "read_bytes heap (Absolute (Cell_ptr c + 4)) (nat (sint n)) = Ok bs"
  shows "func_print heap (h # args) rets stdout = Ok (Why_Not, rets @ [0], stdout @ bs @ [10, 10])
    \<and> int (length bs) = sint n"
  using OHeap_AsStr_slab [OF assms(1-4)] assms(5,6) read_bytes_length [OF assms(6)]
  by (simp add: func_print_def)

lemma func_print_bad_handle:
  assumes "cell_at heap h = Undef"
  shows "func_print heap (h # args) rets stdout = Undef"
  using assms by (simp add: func_print_def OHeap_AsStr_def and_then_def)

section \<open>Name resolution\<close>

text \<open>
  C7. For a Str handle \<open>h\<close>, whose name is the NUL-terminated string that
  \<open>OHeap::AsStr0\<close> points to, \<open>Frame::LoadName\<close> returns the handle bound to the name in
  the local table when there is one, also for the name \<open>print\<close>; otherwise \<open>-1\<close> when
  the name is \<open>print\<close>; otherwise 0.
\<close>

theorem Frame_LoadName_priority:
  assumes "OHeap_AsStr0 heap h = Ok (Some p)" and "read_c_str heap p = Ok name"
  shows "Frame_LoadName heap fr h =
     Ok (case map_of (locals fr) name of
           Some v \<Rightarrow> v
         | None \<Rightarrow> if name = bytes_of ''print'' then - 1 else 0)"
  using assms by (simp add: Frame_LoadName_def split: option.splits)

theorem Frame_LoadName_priority_witness:
  "OHeap_AsStr0 (demo_heap []) 2 = Ok (Some (SmallVal 2 0))
   \<and> read_c_str (demo_heap []) (SmallVal 2 0) = Ok (bytes_of ''print'')
   \<and> Frame_LoadName (demo_heap []) ((Frame_new 9)\<lparr>locals := [(bytes_of ''print'', 5)]\<rparr>) 2 = Ok 5
   \<and> Frame_LoadName (demo_heap []) (Frame_new 9) 2 = Ok (- 1)
   \<and> OHeap_AsStr0 (demo_heap []) 1 = Ok (Some (SmallVal 1 0))
   \<and> read_c_str (demo_heap []) (SmallVal 1 0) = Ok (bytes_of ''hi'')
   \<and> Frame_LoadName (demo_heap []) (Frame_new 9) 1 = Ok 0"
proof -
  have a: "OHeap_AsStr0 (demo_heap []) 2 = Ok (Some (SmallVal 2 0))"
    by code_simp
  have b: "read_c_str (demo_heap []) (SmallVal 2 0) = Ok (bytes_of ''print'')"
    by code_simp
  have c: "OHeap_AsStr0 (demo_heap []) 1 = Ok (Some (SmallVal 1 0))"
    by code_simp
  have d: "read_c_str (demo_heap []) (SmallVal 1 0) = Ok (bytes_of ''hi'')"
    by code_simp
  have e: "bytes_of ''hi'' \<noteq> bytes_of ''print''"
    by code_simp
  from Frame_LoadName_priority [OF a b, of "(Frame_new 9)\<lparr>locals := [(bytes_of ''print'', 5)]\<rparr>"]
    Frame_LoadName_priority [OF a b, of "Frame_new 9"]
    Frame_LoadName_priority [OF c d, of "Frame_new 9"] a b c d e
  show ?thesis by (simp add: Frame_new_def)
qed

section \<open>Fetch and decode\<close>

lemma fetch_cursor:
  assumes "fetch b heap bytecode i = Ok (op, oparg, i')"
  shows "read_char heap bytecode i = Ok op
    \<and> (if HAVE_ARGUMENT b \<le> uint op then oparg \<noteq> None \<and> i' = i + 3
        else oparg = None \<and> i' = i + 1)"
  using assms by (auto simp: fetch_def and_then_eq_Ok split: if_splits)

lemma fetch_operand_unsigned_char:
  assumes "fetch b heap bytecode i = Ok (op, Some a, i')" and "\<not> char_signed b"
  shows "\<exists>lo hi. read_char heap bytecode (i + 1) = Ok lo \<and> read_char heap bytecode (i + 2) = Ok hi
     \<and> a = uint lo + 256 * uint hi \<and> 0 \<le> a \<and> a \<le> 65535"
proof -
  from assms obtain lo hi where r: "read_char heap bytecode (i + 1) = Ok lo"
      "read_char heap bytecode (i + 2) = Ok hi" "a = uint lo + 256 * uint hi"
    by (auto simp: fetch_def and_then_eq_Ok char_val_def split: if_splits)
  have "uint lo < 256" "uint hi < 256" "0 \<le> uint lo" "0 \<le> uint hi"
    using uint_lt2p [of lo] uint_lt2p [of hi] by simp_all
  with r show ?thesis by auto
qed

lemma fetch_operand_signed_char:
  assumes "fetch b heap bytecode i = Ok (op, Some a, i')" and "char_signed b"
  shows "\<exists>lo hi. read_char heap bytecode (i + 1) = Ok lo \<and> read_char heap bytecode (i + 2) = Ok hi
     \<and> a = sint lo + 256 * sint hi"
  using assms by (auto simp: fetch_def and_then_eq_Ok char_val_def split: if_splits)

text \<open>
  C9. The cursor advances by 3 for an opcode at or above \<open>HAVE_ARGUMENT\<close> and by 1
  otherwise (\<open>fetch_cursor\<close>), and where plain \<open>char\<close> is unsigned the operand is the
  first byte plus 256 times the second (\<open>fetch_operand_unsigned_char\<close>). The bytecode
  is read through \<open>const char*\<close>, so where plain \<open>char\<close> is signed each operand byte
  is sign-extended (\<open>fetch_operand_signed_char\<close>): for \<open>LOAD_CONST\<close> with the operand
  bytes 0x80, 0x00 the operand is \<open>-128\<close>, not 128.
\<close>

theorem fetch_operand_sign_extended:
  "fetch py27_x86 (demo_heap [100, 128, 0]) (SmallVal 8 0) 0 = Ok (100, Some (- 128), 3)"
  by code_simp

section \<open>The CALL_FUNCTION case\<close>

text \<open>
  Popping the arguments: with the arguments \<open>xs\<close> on top of the stack, the first of
  \<open>xs\<close> topmost, the loop leaves the rest of the stack and \<open>args = xs\<close>.
\<close>

lemma pop_args_append: "pop_args (length xs) (st @ rev xs) acc = Ok (st, acc @ xs)"
proof (induction xs arbitrary: acc)
  case Nil
  then show ?case by simp
next
  case (Cons x xs)
  have "pop_args (length (x # xs)) (st @ rev (x # xs)) acc
      = pop_args (length xs) (st @ rev xs) (acc @ [x])"
    by (simp add: butlast_append)
  also have "\<dots> = Ok (st, (acc @ [x]) @ xs)"
    by (rule Cons.IH)
  finally show ?case by simp
qed

text \<open>
  The positional count \<open>oparg & 0xff\<close> is the first operand byte, whatever the second
  byte is and whether plain \<open>char\<close> is signed or not.
\<close>

lemma and_255: "(k :: int) AND 0xff = k mod 256"
  using take_bit_eq_mask [of 8 k] take_bit_eq_mod [of 8 k]
  by (simp add: mask_eq_exp_minus_1)

lemma char_val_mod: "char_val b c mod 256 = uint c"
proof (cases "char_signed b")
  case True
  have "uint c = take_bit 8 (sint c)"
    using uint_sint [of c] by simp
  then show ?thesis
    using True by (simp add: char_val_def take_bit_eq_mod)
next
  case False
  then show ?thesis
    using uint_lt2p [of c] by (simp add: char_val_def)
qed

lemma num_args_low_byte: "(char_val b lo + char_val b hi * 256) AND 0xff = uint lo"
proof -
  have "(char_val b lo + char_val b hi * 256) mod 256 = char_val b lo mod 256"
    by simp
  then show ?thesis
    by (simp only: and_255 char_val_mod)
qed

lemma call_function_low_byte:
  "call_function heap oparg s = call_function heap (oparg AND 0xff) s"
  by (simp add: call_function_def)

text \<open>
  C3, as the code has it. The keyword count in the second byte of the operand is
  decoded into \<open>num_kwargs\<close> and never used: \<open>CALL_FUNCTION\<close> with the operand bytes
  \<open>lo\<close>, \<open>hi\<close> acts exactly as \<open>CALL_FUNCTION\<close> with the operand bytes \<open>lo\<close>, 0, that is
  with the same positional count and no keyword arguments.
\<close>

theorem call_function_ignores_kwargs:
  "call_function heap (char_val b lo + char_val b hi * 256) s
   = call_function heap (char_val b lo + char_val b 0 * 256) s"
proof -
  have "(char_val b lo + char_val b hi * 256) AND 0xff
      = (char_val b lo + char_val b 0 * 256) AND 0xff"
    by (simp only: num_args_low_byte)
  then show ?thesis
    by (simp add: call_function_def)
qed

text \<open>
  C3, as stated, fails. The instruction \<open>CALL_FUNCTION\<close> with the operand bytes 1, 1 (one
  positional and one keyword argument) on the stack \<open>[print, hi]\<close> is not rejected: it
  calls the native print function, which writes \<open>hi\<close>, and pushes the result, exactly as
  the operand 1 does.
\<close>

theorem CALL_FUNCTION_with_kwargs_runs:
  "fetch py27_x86 (demo_heap [131, 1, 1]) (SmallVal 8 0) 0 = Ok (131, Some 257, 3)
   \<and> exec py27_x86 (demo_heap [131, 1, 1]) demo_names demo_consts 131 (Some 257)
        (demo_state [- 1, 1])
     = Ok ((demo_state [0])\<lparr>out := [104, 105, 10, 10]\<rparr>)
   \<and> exec py27_x86 (demo_heap [131, 1, 1]) demo_names demo_consts 131 (Some 1)
        (demo_state [- 1, 1])
     = Ok ((demo_state [0])\<lparr>out := [104, 105, 10, 10]\<rparr>)"
  by code_simp

text \<open>
  \<open>DebugHandleArray\<close> of a stack is defined when it is defined for each part of the
  stack, in any order.
\<close>

lemma DebugHandleArray_append:
  "DebugHandleArray heap (xs @ ys) = Ok () \<longleftrightarrow>
     DebugHandleArray heap xs = Ok () \<and> DebugHandleArray heap ys = Ok ()"
  by (induction xs) (auto simp: and_then_eq_Ok)

lemma DebugHandleArray_rev:
  "DebugHandleArray heap (rev xs) = Ok () \<longleftrightarrow> DebugHandleArray heap xs = Ok ()"
  by (induction xs) (auto simp: DebugHandleArray_append and_then_eq_Ok)

text \<open>
  C8, as the code has it. When the callee handle is not negative, and every handle
  on the value stack that is not negative is a cell of the heap with a tag of the
  table (so that the dumps of the stack are defined), \<open>CALL_FUNCTION\<close> with \<open>n\<close>
  positional arguments pops the \<open>n\<close> arguments and the callee and pushes the handle 0.
  Nothing else changes: no frame is made, the callee is not run, nothing is
  written, and \<open>why\<close> keeps its value.
\<close>

theorem call_function_compiled_callee:
  assumes "value_stack (frame s) = below @ [callee] @ rev args"
    and "int (length args) = oparg AND 0xff"
    and "0 \<le> sint callee"
    and "DebugHandleArray heap (value_stack (frame s)) = Ok ()"
  shows "call_function heap oparg s = Ok (set_stack (below @ [0]) s)"
proof -
  have n: "nat (oparg AND 0xff) = length args"
    using assms(2) by simp
  have p: "pop_args (nat (oparg AND 0xff)) (value_stack (frame s)) [] = Ok (below @ [callee], args)"
    using pop_args_append [of args "below @ [callee]" "[]"] assms(1) n by simp
  have "DebugHandleArray heap ((below @ [callee]) @ rev args) = Ok ()"
    using assms(1,4) by simp
  then have d: "DebugHandleArray heap (below @ [callee]) = Ok ()" "DebugHandleArray heap args = Ok ()"
    by (simp_all only: DebugHandleArray_append DebugHandleArray_rev)
  show ?thesis
    using assms(3,4) p d by (simp add: call_function_def)
qed

theorem call_function_compiled_callee_witness:
  "value_stack (frame (demo_state [2, 9, 1, 4])) = [2] @ [9] @ rev [4, 1]
   \<and> int (length [4, 1 :: Handle]) = 2 AND 0xff
   \<and> 0 \<le> sint (9 :: Handle)
   \<and> DebugHandleArray (demo_heap [100, 0, 0, 83]) (value_stack (frame (demo_state [2, 9, 1, 4])))
       = Ok ()
   \<and> call_function (demo_heap [100, 0, 0, 83]) 2 (demo_state [2, 9, 1, 4]) = Ok (demo_state [2, 0])"
proof -
  have a: "value_stack (frame (demo_state [2, 9, 1, 4])) = [2] @ [9] @ rev [4, 1]"
    by code_simp
  have b: "int (length [4, 1 :: Handle]) = 2 AND 0xff"
    by code_simp
  have c: "0 \<le> sint (9 :: Handle)"
    by code_simp
  have e: "DebugHandleArray (demo_heap [100, 0, 0, 83])
      (value_stack (frame (demo_state [2, 9, 1, 4]))) = Ok ()"
    by code_simp
  have d: "set_stack ([2] @ [0]) (demo_state [2, 9, 1, 4]) = demo_state [2, 0]"
    by code_simp
  from call_function_compiled_callee [OF a b c e] a b c d e show ?thesis by simp
qed

text \<open>
  A callee handle outside the cell table is read unchecked by the dump of the stack.
\<close>

lemma call_function_bad_handle:
  "cell_at (demo_heap []) 100 = Undef
   \<and> call_function (demo_heap []) 0 (demo_state [100]) = Undef"
  by code_simp

text \<open>
  C8, as stated, fails. Cell 9 of the example heap is a code object with the bytecode
  \<open>LOAD_CONST 0; RETURN_VALUE\<close>: run in a frame of its own it ends with the signal
  Return and the handle 1 on its stack. \<open>CALL_FUNCTION\<close> with this callee pushes the
  handle 0.
\<close>

theorem CALL_FUNCTION_compiled_callee_not_run:
  "RunFrame py27_x86 (demo_heap [100, 0, 0, 83]) (Frame_new 9) []
     = Ok ((demo_state [1])\<lparr>why := Why_Return\<rparr>)
   \<and> call_function (demo_heap [100, 0, 0, 83]) 0 (demo_state [9]) = Ok (demo_state [0])"
  by code_simp

section \<open>The loop\<close>

text \<open>
  While the cursor is inside the bytecode, the loop executes the instruction at the
  cursor and goes on from the state that results, whatever \<open>why\<close> is in either state.
  \<open>RETURN_VALUE\<close> sets \<open>why\<close> and changes nothing else.
\<close>

lemma run_loop_step:
  assumes "i < num_bytes" and "fetch b heap bytecode i = Ok (op, oparg, i')"
    and "exec b heap names ks op oparg s = Ok s'"
  shows "run_loop b heap names ks bytecode num_bytes i s
    = run_loop b heap names ks bytecode num_bytes i' s'"
  using assms by (simp add: run_loop.simps [of b heap names ks bytecode num_bytes i s])

lemma exec_RETURN_VALUE:
  assumes "uint op = RETURN_VALUE b" and "uint op \<noteq> LOAD_CONST b" and "uint op \<noteq> LOAD_NAME b"
    and "uint op \<noteq> POP_TOP b" and "uint op \<noteq> CALL_FUNCTION b"
  shows "exec b heap names ks op oparg s = Ok (s\<lparr>why := Why_Return\<rparr>)"
  using assms by (simp add: exec_def)

lemma run_loop_after_RETURN_VALUE:
  assumes "i < num_bytes" and "fetch b heap bytecode i = Ok (op, oparg, i')"
    and "uint op = RETURN_VALUE b" and "uint op \<noteq> LOAD_CONST b" and "uint op \<noteq> LOAD_NAME b"
    and "uint op \<noteq> POP_TOP b" and "uint op \<noteq> CALL_FUNCTION b"
  shows "run_loop b heap names ks bytecode num_bytes i s
    = run_loop b heap names ks bytecode num_bytes i' (s\<lparr>why := Why_Return\<rparr>)"
  using run_loop_step [OF assms(1,2) exec_RETURN_VALUE [OF assms(3-7)]] .

text \<open>
  C1. Once \<open>why\<close> is not Not, the loop should end and \<open>why\<close> should be the value
  returned. The \<open>break\<close> after \<open>why = Why::Return\<close>, like the one after a failed
  native call, leaves the \<open>switch\<close> only, and the loop condition does not test
  \<open>why\<close> (\<open>run_loop_after_RETURN_VALUE\<close>). With the bytecode \<open>LOAD_NAME 0; LOAD_CONST 0; RETURN_VALUE; CALL_FUNCTION 1\<close>
  the state after three iterations has the signal Return at cursor 7 of 10; the loop
  goes on, the call after \<open>RETURN_VALUE\<close> prints \<open>hi\<close>, and \<open>RunFrame\<close> returns Not.
  With \<open>LOAD_NAME 0; LOAD_CONST 2; CALL_FUNCTION 1; RETURN_VALUE\<close>, where constant 2 is
  an integer, the call fails with the signal Exception at cursor 9 of 10; the loop
  goes on, and \<open>RunFrame\<close> returns Return.
\<close>

theorem RunFrame_continues_after_RETURN_VALUE:
  "iterations py27_x86 (demo_heap [101, 0, 0, 100, 0, 0, 83, 131, 1, 0]) demo_names demo_consts
      (SmallVal 8 0) 10 3 (0, demo_state [])
     = Ok (7, (demo_state [- 1, 1])\<lparr>why := Why_Return\<rparr>)
   \<and> RunFrame py27_x86 (demo_heap [101, 0, 0, 100, 0, 0, 83, 131, 1, 0]) (Frame_new 9) []
     = Ok ((demo_state [0])\<lparr>out := [104, 105, 10, 10]\<rparr>)
   \<and> iterations py27_x86 (demo_heap [101, 0, 0, 100, 2, 0, 131, 1, 0, 83]) demo_names demo_consts
      (SmallVal 8 0) 10 3 (0, demo_state [])
     = Ok (9, (demo_state [])\<lparr>why := Why_Exception\<rparr>)
   \<and> RunFrame py27_x86 (demo_heap [101, 0, 0, 100, 2, 0, 131, 1, 0, 83]) (Frame_new 9) []
     = Ok ((demo_state [])\<lparr>why := Why_Return\<rparr>)"
  by code_simp

text \<open>
  No case of the \<open>switch\<close> writes \<open>locals_\<close>, so an iteration of the loop keeps it, and
  so does \<open>RunFrame\<close>. The result of the loop is a state that \<open>iterations\<close> reaches.
\<close>

lemma locals_push [simp]: "locals (frame (push h s)) = locals (frame s)"
  by (simp add: push_def)

lemma locals_set_stack [simp]: "locals (frame (set_stack st s)) = locals (frame s)"
  by (simp add: set_stack_def)

lemma call_function_locals:
  assumes "call_function heap oparg s = Ok s'"
  shows "locals (frame s') = locals (frame s)"
  using assms
  by (auto simp: call_function_def Let_def and_then_eq_Ok split: if_splits prod.splits)

lemma exec_locals:
  assumes "exec b heap names consts op oparg s = Ok s'"
  shows "locals (frame s') = locals (frame s)"
  using assms
  by (auto simp: exec_def and_then_eq_Ok dest: call_function_locals
      split: if_splits option.splits)

lemma iterations_locals:
  "iterations b heap names consts bytecode num_bytes k (i, s) = Ok (i', s')
   \<Longrightarrow> locals (frame s') = locals (frame s)"
proof (induction k arbitrary: i s)
  case 0
  then show ?case by simp
next
  case (Suc k)
  show ?case
  proof (cases "i < num_bytes")
    case False
    with Suc.prems show ?thesis by simp
  next
    case True
    with Suc.prems obtain op oparg j t where
      f: "fetch b heap bytecode i = Ok (op, oparg, j)"
      and e: "exec b heap names consts op oparg s = Ok t"
      and r: "iterations b heap names consts bytecode num_bytes k (j, t) = Ok (i', s')"
      by (auto split: outcome.splits)
    from Suc.IH [OF r] exec_locals [OF e] show ?thesis by simp
  qed
qed

lemma run_loop_iterations:
  "run_loop b heap names ks bytecode num_bytes i s = Ok s'
   \<Longrightarrow> \<exists>k i'. iterations b heap names ks bytecode num_bytes k (i, s) = Ok (i', s')
         \<and> \<not> i' < num_bytes"
proof (induction b heap names ks bytecode num_bytes i s rule: run_loop.induct)
  case (1 b heap names ks bytecode num_bytes i s)
  show ?case
  proof (cases "i < num_bytes")
    case False
    with "1.prems" have "iterations b heap names ks bytecode num_bytes 0 (i, s) = Ok (i, s')"
      by (simp add: run_loop.simps [of b heap names ks bytecode num_bytes i s])
    with False show ?thesis by blast
  next
    case True
    with "1.prems" obtain op oparg j t where
      f: "fetch b heap bytecode i = Ok (op, oparg, j)"
      and e: "exec b heap names ks op oparg s = Ok t"
      and r: "run_loop b heap names ks bytecode num_bytes j t = Ok s'"
      by (auto simp: run_loop.simps [of b heap names ks bytecode num_bytes i s]
          split: outcome.splits)
    from "1.IH" [OF True f refl refl e r] obtain k i' where
      "iterations b heap names ks bytecode num_bytes k (j, t) = Ok (i', s')"
      "\<not> i' < num_bytes"
      by blast
    with True f e have
      "iterations b heap names ks bytecode num_bytes (Suc k) (i, s) = Ok (i', s')"
      by simp
    with \<open>\<not> i' < num_bytes\<close> show ?thesis by blast
  qed
qed

lemma RunFrame_locals:
  assumes "RunFrame b heap fr stdout = Ok s"
  shows "locals (frame s) = locals fr"
proof -
  from assms obtain ns ks and code :: Str where
    "run_loop b heap ns ks (data code) (sint (Str.len code)) 0
       \<lparr>why = Why_Not, frame = fr, out = stdout\<rparr> = Ok s"
    by (auto simp: RunFrame_def and_then_eq_Ok)
  from run_loop_iterations [OF this] iterations_locals show ?thesis
    by fastforce
qed

text \<open>
  C10. In every state that the loop reaches from a new frame, the local-binding table
  is empty, and it is still empty after any instruction; \<open>Frame::LoadName\<close> on a Str
  handle gives \<open>-1\<close> for the name \<open>print\<close> and 0 for any other name; and \<open>LOAD_NAME\<close>
  of a name other than \<open>print\<close> pushes the handle 0.
\<close>

theorem locals_always_empty:
  assumes "iterations b heap names consts bytecode num_bytes k
      (0, \<lparr>why = Why_Not, frame = Frame_new c, out = stdout\<rparr>) = Ok (i, s)"
  shows "locals (frame s) = []
    \<and> (\<forall>op oparg s'. exec b heap names consts op oparg s = Ok s' \<longrightarrow> locals (frame s') = [])
    \<and> (\<forall>h p name. OHeap_AsStr0 heap h = Ok (Some p) \<and> read_c_str heap p = Ok name
          \<longrightarrow> Frame_LoadName heap (frame s) h = Ok (if name = bytes_of ''print'' then - 1 else 0))
    \<and> (\<forall>op a nh p name.
          uint op = LOAD_NAME b \<and> uint op \<noteq> LOAD_CONST b
          \<and> read_int32 heap (ptr_add (handles names) (4 * a)) = Ok nh
          \<and> OHeap_AsStr0 heap nh = Ok (Some p) \<and> read_c_str heap p = Ok name
          \<and> name \<noteq> bytes_of ''print''
          \<longrightarrow> exec b heap names consts op (Some a) s = Ok (push 0 s))"
proof -
  have e: "locals (frame s) = []"
    using iterations_locals [OF assms] by (simp add: Frame_new_def)
  have w: "locals (frame s') = []" if "exec b heap names consts op oparg s = Ok s'"
    for op oparg s'
    using exec_locals [OF that] e by simp
  have l: "Frame_LoadName heap (frame s) h = Ok (if name = bytes_of ''print'' then - 1 else 0)"
    if "OHeap_AsStr0 heap h = Ok (Some p)" "read_c_str heap p = Ok name" for h p name
    using that e by (simp add: Frame_LoadName_def)
  have x: "exec b heap names consts op (Some a) s = Ok (push 0 s)"
    if "uint op = LOAD_NAME b" "uint op \<noteq> LOAD_CONST b"
      "read_int32 heap (ptr_add (handles names) (4 * a)) = Ok nh"
      "OHeap_AsStr0 heap nh = Ok (Some p)" "read_c_str heap p = Ok name"
      "name \<noteq> bytes_of ''print''" for op a nh p name
    using that l [OF that(4) that(5)] by (simp add: exec_def)
  from e w l x show ?thesis by blast
qed

theorem locals_always_empty_witness:
  "iterations py27_x86 (demo_heap [101, 1, 0, 101, 0, 0]) demo_names demo_consts (SmallVal 8 0) 6 1
      (0, \<lparr>why = Why_Not, frame = Frame_new 9, out = []\<rparr>) = Ok (3, demo_state [0])
   \<and> locals (frame (demo_state [0])) = []
   \<and> Frame_LoadName (demo_heap [101, 1, 0, 101, 0, 0]) (frame (demo_state [0])) 1 = Ok 0
   \<and> exec py27_x86 (demo_heap [101, 1, 0, 101, 0, 0]) demo_names demo_consts 101 (Some 1)
        (demo_state [0]) = Ok (demo_state [0, 0])"
proof -
  let ?heap = "demo_heap [101, 1, 0, 101, 0, 0]"
  have r: "iterations py27_x86 ?heap demo_names demo_consts (SmallVal 8 0) 6 1
      (0, \<lparr>why = Why_Not, frame = Frame_new 9, out = []\<rparr>) = Ok (3, demo_state [0])"
    by code_simp
  have a: "uint (101 :: byte) = LOAD_NAME py27_x86 \<and> uint (101 :: byte) \<noteq> LOAD_CONST py27_x86"
    by code_simp
  have b: "read_int32 ?heap (ptr_add (handles demo_names) (4 * 1)) = Ok 1"
    by code_simp
  have c: "OHeap_AsStr0 ?heap 1 = Ok (Some (SmallVal 1 0))"
    by code_simp
  have d: "read_c_str ?heap (SmallVal 1 0) = Ok (bytes_of ''hi'')"
    by code_simp
  have e: "bytes_of ''hi'' \<noteq> bytes_of ''print''"
    by code_simp
  have p: "push 0 (demo_state [0]) = demo_state [0, 0]"
    by code_simp
  note t = locals_always_empty [OF r]
  from t have l: "locals (frame (demo_state [0])) = []"
    by (rule conjunct1)
  from t have n: "Frame_LoadName ?heap (frame (demo_state [0])) h =
      Ok (if name = bytes_of ''print'' then - 1 else 0)"
    if "OHeap_AsStr0 ?heap h = Ok (Some q) \<and> read_c_str ?heap q = Ok name" for h q name
    using that by blast
  from t have x: "exec py27_x86 ?heap demo_names demo_consts op (Some k) (demo_state [0])
      = Ok (push 0 (demo_state [0]))"
    if "uint op = LOAD_NAME py27_x86 \<and> uint op \<noteq> LOAD_CONST py27_x86
      \<and> read_int32 ?heap (ptr_add (handles demo_names) (4 * k)) = Ok nh
      \<and> OHeap_AsStr0 ?heap nh = Ok (Some q) \<and> read_c_str ?heap q = Ok name
      \<and> name \<noteq> bytes_of ''print''" for op k nh q name
    using that by blast
  have "Frame_LoadName ?heap (frame (demo_state [0])) 1 = Ok 0"
    using n [of 1 "SmallVal 1 0" "bytes_of ''hi''"] c d e by simp
  moreover have "exec py27_x86 ?heap demo_names demo_consts 101 (Some 1) (demo_state [0])
      = Ok (demo_state [0, 0])"
    using x [of 101 1 1 "SmallVal 1 0" "bytes_of ''hi''"] a b c d e p by simp
  ultimately show ?thesis
    using r l by simp
qed

section \<open>The loader\<close>

lemma length_le_bytes [simp]: "length (le_bytes n v) = n"
  by (induction n arbitrary: v) simp_all

lemma le_uint_le_bytes: "le_uint (le_bytes n v) = v mod 256 ^ n"
proof (induction n arbitrary: v)
  case 0
  then show ?case by simp
next
  case (Suc n)
  have "uint (word_of_int (v mod 256) :: byte) = v mod 256"
    by (simp add: uint_word_of_int take_bit_eq_mod)
  then have "le_uint (le_bytes (Suc n) v) = v mod 256 + 256 * (v div 256 mod 256 ^ n)"
    by (simp add: Suc.IH)
  also have "\<dots> = v mod 256 ^ Suc n"
    by (simp add: zmod_zmult2_eq)
  finally show ?case .
qed

lemma Cell_ptr_set_ptr:
  assumes "4 \<le> length (small_val c)"
  shows "Cell_ptr (set_ptr c p) = p"
proof -
  have "take 8 (drop 4 (take 4 (small_val c) @ le_bytes 8 (uint p) @ drop 12 (small_val c)))
      = le_bytes 8 (uint p)"
    using assms by simp
  then have "Cell_ptr (set_ptr c p) = word_of_int (uint p mod 256 ^ 8)"
    by (simp add: Cell_ptr_def set_ptr_def le_uint_le_bytes)
  also have "uint p mod 256 ^ 8 = uint p"
    using uint_lt2p [of p] by simp
  finally show ?thesis by simp
qed

lemma length_read_cells [simp]: "length (read_cells n f) = n"
  by (induction n arbitrary: f) simp_all

lemma read_cells_nth:
  "i < n \<Longrightarrow> read_cells n f ! i = parse_cell (take 16 (drop (16 * i) f))"
proof (induction n arbitrary: f i)
  case 0
  then show ?case by simp
next
  case (Suc n)
  show ?case
  proof (cases i)
    case 0
    then show ?thesis by simp
  next
    case (Suc j)
    with Suc.prems have "j < n" by simp
    from Suc.IH [OF this, of "drop 16 f"] Suc show ?thesis
      by (simp add: add.commute)
  qed
qed

lemma length_patch [simp]: "length (patch base cs) = length cs"
  by (induction cs) simp_all

lemma patch_nth:
  "i < length cs \<Longrightarrow>
   patch base cs ! i =
     (if is_slab (cs ! i) \<noteq> 0 then set_ptr (cs ! i) (base + scast (slab_wire_offset (cs ! i)))
      else cs ! i)"
proof (induction cs arbitrary: i)
  case Nil
  then show ?case by simp
next
  case (Cons c cs)
  then show ?case by (cases i) simp_all
qed

lemma small_val_parse_cell: "16 \<le> length bs \<Longrightarrow> length (small_val (parse_cell (take 16 bs))) = 12"
  by (simp add: parse_cell_def)

text \<open>
  \<open>Load\<close> returns \<open>false\<close> exactly for a short or wrong header, short size fields, a
  slab region shorter than \<open>total_slab_size\<close> or fewer than \<open>num_cells\<close> whole cells:
  the condition does not depend on what the cells hold, so no offset makes \<open>Load\<close>
  return \<open>false\<close>.
\<close>

lemma Load_fails_iff:
  "Load base f = Ok None \<longleftrightarrow>
     length f < 4 \<or> take 4 f \<noteq> kHeader \<or> length f < 12
     \<or> (let tss = sint (word_of_int (le_uint (take 4 (drop 4 f))) :: 32 word);
             n = sint (word_of_int (le_uint (take 4 (drop 8 f))) :: 32 word)
         in 0 \<le> tss \<and>
            (int (length f) - 12 < tss
             \<or> 0 \<le> n \<and> int ((length f - 12 - nat tss) div 16) < n))"
proof (cases "length f < 4 \<or> take 4 f \<noteq> kHeader")
  case True
  then show ?thesis
    by (auto simp: Load_def ReadHeader_def kHeaderLen_def)
next
  case False
  then have h: "ReadHeader f = (True, drop 4 f)"
    by (simp add: ReadHeader_def kHeaderLen_def)
  show ?thesis
  proof (cases "length f < 12")
    case True
    then show ?thesis
      using h False by (auto simp: Load_def Let_def)
  next
    case l: False
    have d: "drop 4 (drop 4 f) = drop 8 f" "drop 4 (drop 8 f) = drop 12 f"
      by simp_all
    have "length (drop 12 f) - nat tss = length f - 12 - nat tss" for tss
      by simp
    then show ?thesis
      using h False l
      by (auto simp: Load_def Let_def d and_then_eq_Ok simp del: drop_drop)
  qed
qed

text \<open>
  The second loop reads four bytes at \<open>base + offset\<close>: the read is inside the slab
  region when \<open>0 \<le> offset\<close> and \<open>offset + 4\<close> is at most the size of the region.
\<close>

lemma unat_scast_offset:
  fixes off :: "32 word"
  assumes "0 \<le> sint off"
  shows "unat (scast off :: 64 word) = nat (sint off)"
proof -
  have "sint off < 2 ^ 31"
    using sint_lt [of off] by simp
  then have "sint off < 2 ^ 64"
    by simp
  then have "take_bit 64 (sint off) = sint off"
    using assms by (simp add: take_bit_int_eq_self)
  moreover have "uint (scast off :: 64 word) = take_bit LENGTH(64) (sint off)"
    by (simp only: scast_eq uint_word_of_int take_bit_eq_mod)
  ultimately have "uint (scast off :: 64 word) = sint off"
    by simp
  then show ?thesis
    by (simp add: unat_eq_nat_uint)
qed

lemma read_int32_slab:
  fixes off :: "32 word"
  assumes "0 \<le> sint off" and "nat (sint off) + 4 \<le> length (slabs_mem heap)"
  shows "\<exists>v. read_int32 heap (Absolute (slabs heap + scast off)) = Ok v"
  using assms unat_scast_offset [OF assms(1)]
  by (auto simp: read_int32_def read_bytes_def region_def)

lemma slab_lens_Ok:
  assumes "\<forall>c \<in> set cs. is_slab c \<noteq> 0 \<longrightarrow> (\<exists>v. read_int32 heap (Absolute (Cell_ptr c)) = Ok v)"
  shows "slab_lens heap cs = Ok ()"
  using assms by (induction cs) auto

text \<open>
  C2, as the code has it. The patching pass validates nothing. For every stream with
  the header \<open>OHP2\<close>, non-negative sizes, enough bytes for the slab region and the cell
  table, and the 32-bit length at the offset of every slab-backed cell inside the slab
  region, \<open>Load\<close> succeeds; every slab-backed cell holds the reference
  \<open>base + offset\<close>, and every other cell is as it was read.
\<close>

theorem Load_resolves_offsets:
  assumes hdr: "take 4 f = kHeader"
    and tss: "tss = sint (word_of_int (le_uint (take 4 (drop 4 f))) :: 32 word)"
    and n: "n = sint (word_of_int (le_uint (take 4 (drop 8 f))) :: 32 word)"
    and nonneg: "0 \<le> tss" "0 \<le> n"
    and len: "12 + tss + 16 * n \<le> int (length f)"
    and offs: "\<forall>i < nat n.
          let c = parse_cell (take 16 (drop (12 + nat tss + 16 * i) f))
          in is_slab c \<noteq> 0 \<longrightarrow>
               0 \<le> sint (slab_wire_offset c) \<and> sint (slab_wire_offset c) + 4 \<le> tss"
  shows "\<exists>h. Load base f = Ok (Some h)
     \<and> slabs h = base \<and> slabs_mem h = take (nat tss) (drop 12 f)
     \<and> num_cells h = n \<and> int (length (cells h)) = n
     \<and> (\<forall>i < nat n.
          let c = parse_cell (take 16 (drop (12 + nat tss + 16 * i) f))
          in if is_slab c \<noteq> 0
             then cells h ! i = set_ptr c (base + scast (slab_wire_offset c))
               \<and> Cell_ptr (cells h ! i) = base + scast (slab_wire_offset c)
             else cells h ! i = c)"
proof -
  let ?f4 = "drop (12 + nat tss) f"
  let ?h = "\<lparr>slabs = base, slabs_mem = take (nat tss) (drop 12 f), num_cells = n,
             cells = patch base (read_cells (nat n) ?f4)\<rparr>"
  have l12: "12 \<le> length f" and l4: "int (length (drop 12 f)) \<ge> tss"
    and lc: "n \<le> int (length ?f4 div 16)"
    using nonneg len by auto
  have cell: "let c = parse_cell (take 16 (drop (12 + nat tss + 16 * i) f))
          in if is_slab c \<noteq> 0
             then cells ?h ! i = set_ptr c (base + scast (slab_wire_offset c))
               \<and> Cell_ptr (cells ?h ! i) = base + scast (slab_wire_offset c)
             else cells ?h ! i = c" if i: "i < nat n" for i
  proof -
    have "16 \<le> length (drop (16 * i) ?f4)"
      using i lc nonneg by (simp; linarith)
    then have sv: "4 \<le> length (small_val (parse_cell (take 16 (drop (16 * i) ?f4))))"
      using small_val_parse_cell [of "drop (16 * i) ?f4"] by simp
    have d: "drop (16 * i) ?f4 = drop (12 + nat tss + 16 * i) f"
      by (simp add: add.commute)
    have "cells ?h ! i =
        (let c = parse_cell (take 16 (drop (16 * i) ?f4))
         in if is_slab c \<noteq> 0 then set_ptr c (base + scast (slab_wire_offset c)) else c)"
      using i by (simp add: patch_nth read_cells_nth Let_def del: drop_drop)
    then show ?thesis
      using sv unfolding d by (simp add: Cell_ptr_set_ptr Let_def)
  qed
  have readable: "\<exists>v. read_int32 ?h (Absolute (Cell_ptr c')) = Ok v"
    if c': "c' \<in> set (cells ?h)" and sl: "is_slab c' \<noteq> 0" for c'
  proof -
    from c' obtain i where i: "i < nat n" and ci: "c' = cells ?h ! i"
      by (auto simp: in_set_conv_nth)
    define c where "c = parse_cell (take 16 (drop (12 + nat tss + 16 * i) f))"
    from cell [OF i] have alt: "if is_slab c \<noteq> 0
             then cells ?h ! i = set_ptr c (base + scast (slab_wire_offset c))
               \<and> Cell_ptr (cells ?h ! i) = base + scast (slab_wire_offset c)
             else cells ?h ! i = c"
      by (simp only: Let_def c_def)
    have s: "is_slab c \<noteq> 0"
    proof (rule ccontr)
      assume "\<not> is_slab c \<noteq> 0"
      with alt ci sl show False by simp
    qed
    from alt s have "Cell_ptr (cells ?h ! i) = base + scast (slab_wire_offset c)"
      by metis
    with ci have p: "Cell_ptr c' = base + scast (slab_wire_offset c)"
      by (simp only:)
    from offs i s have o: "0 \<le> sint (slab_wire_offset c)" "sint (slab_wire_offset c) + 4 \<le> tss"
      by (simp_all add: Let_def c_def)
    have "length (slabs_mem ?h) = nat tss"
      using l4 nonneg by simp
    with o have "nat (sint (slab_wire_offset c)) + 4 \<le> length (slabs_mem ?h)"
      by linarith
    from read_int32_slab [OF o(1) this] p show ?thesis
      by simp
  qed
  have lens: "slab_lens ?h (cells ?h) = Ok ()"
    by (rule slab_lens_Ok) (use readable in blast)
  have "ReadHeader f = (True, drop 4 f)"
    using hdr l12 by (simp add: ReadHeader_def kHeaderLen_def)
  moreover have "\<not> length (drop 4 f) < 4" "\<not> length (drop 4 (drop 4 f)) < 4"
    using l12 by simp_all
  moreover have "drop 4 (drop 4 (drop 4 f)) = drop 12 f" "drop 4 (drop 4 f) = drop 8 f"
    "drop (nat tss) (drop 12 f) = ?f4"
    by (simp_all add: add.commute)
  ultimately have load: "Load base f = Ok (Some ?h)"
    using l4 lc nonneg tss n lens
    by (simp add: Load_def Let_def del: drop_drop)
  have "slabs ?h = base \<and> slabs_mem ?h = take (nat tss) (drop 12 f)
     \<and> num_cells ?h = n \<and> int (length (cells ?h)) = n"
    using nonneg by simp
  with load cell show ?thesis by blast
qed

theorem Load_resolves_offsets_witness:
  "take 4 good_image = kHeader
   \<and> (12 :: int) = sint (word_of_int (le_uint (take 4 (drop 4 good_image))) :: 32 word)
   \<and> (1 :: int) = sint (word_of_int (le_uint (take 4 (drop 8 good_image))) :: 32 word)
   \<and> 12 + (12 :: int) + 16 * 1 \<le> int (length good_image)
   \<and> is_slab (parse_cell (take 16 (drop 24 good_image))) \<noteq> 0
   \<and> sint (slab_wire_offset (parse_cell (take 16 (drop 24 good_image)))) = 4
   \<and> (\<exists>h. Load 4096 good_image = Ok (Some h) \<and> int (length (cells h)) = 1
        \<and> Cell_ptr (cells h ! 0) = 4096 + 4)"
proof -
  have hdr: "take 4 good_image = kHeader"
    by code_simp
  have tss: "(12 :: int) = sint (word_of_int (le_uint (take 4 (drop 4 good_image))) :: 32 word)"
    by code_simp
  have n: "(1 :: int) = sint (word_of_int (le_uint (take 4 (drop 8 good_image))) :: 32 word)"
    by code_simp
  have len: "12 + (12 :: int) + 16 * 1 \<le> int (length good_image)"
    by code_simp
  have c: "parse_cell (take 16 (drop (12 + nat 12 + 16 * 0) good_image))
      = slab_cell (- 5) [0, 0, 0, 0, 4, 0, 0, 0]"
    by code_simp
  have c': "parse_cell (take 16 (drop 24 good_image)) = slab_cell (- 5) [0, 0, 0, 0, 4, 0, 0, 0]"
    by code_simp
  have o: "is_slab (slab_cell (- 5) [0, 0, 0, 0, 4, 0, 0, 0]) \<noteq> 0"
    "(scast (slab_wire_offset (slab_cell (- 5) [0, 0, 0, 0, 4, 0, 0, 0])) :: 64 word) = 4"
    "sint (slab_wire_offset (slab_cell (- 5) [0, 0, 0, 0, 4, 0, 0, 0])) = 4"
    by code_simp+
  have offs: "\<forall>i < nat 1.
          let c = parse_cell (take 16 (drop (12 + nat 12 + 16 * i) good_image))
          in is_slab c \<noteq> 0 \<longrightarrow>
               0 \<le> sint (slab_wire_offset c) \<and> sint (slab_wire_offset c) + 4 \<le> 12"
    using c o by (simp add: Let_def)
  from Load_resolves_offsets [OF hdr tss n _ _ len offs, of 4096]
  obtain h where h: "Load 4096 good_image = Ok (Some h)" "int (length (cells h)) = 1"
    and i: "\<forall>i < nat 1.
          let c = parse_cell (take 16 (drop (12 + nat 12 + 16 * i) good_image))
          in if is_slab c \<noteq> 0
             then cells h ! i = set_ptr c (4096 + scast (slab_wire_offset c))
               \<and> Cell_ptr (cells h ! i) = 4096 + scast (slab_wire_offset c)
             else cells h ! i = c"
    by auto
  from i have "let c = parse_cell (take 16 (drop (12 + nat 12 + 16 * 0) good_image))
          in if is_slab c \<noteq> 0
             then cells h ! 0 = set_ptr c (4096 + scast (slab_wire_offset c))
               \<and> Cell_ptr (cells h ! 0) = 4096 + scast (slab_wire_offset c)
             else cells h ! 0 = c"
    by simp
  then have "Cell_ptr (cells h ! 0)
      = 4096 + scast (slab_wire_offset (slab_cell (- 5) [0, 0, 0, 0, 4, 0, 0, 0]))"
    unfolding c Let_def using o(1) by metis
  then have "Cell_ptr (cells h ! 0) = 4096 + 4"
    by (simp only: o(2))
  with h hdr tss n len c' o(1,3) show ?thesis
    by (simp only: c') blast
qed

text \<open>
  C2, as stated, fails. The image \<open>bad_offset_image\<close> has a slab region of 4 bytes
  and one slab-backed Str cell with the offset 1000. The patching loop stores the
  reference \<open>4096 + 1000\<close> without a check, and \<open>Load\<close> does not return \<open>false\<close>: its
  second loop reads the length of the slab through that reference, outside the slab
  region.
\<close>

theorem Load_rejects_no_offset:
  "sint (word_of_int (le_uint (take 4 (drop 4 bad_offset_image))) :: 32 word) = 4
   \<and> is_slab (parse_cell (take 16 (drop 16 bad_offset_image))) = 1
   \<and> slab_wire_offset (parse_cell (take 16 (drop 16 bad_offset_image))) = 1000
   \<and> patch 4096 (read_cells 1 (drop 16 bad_offset_image))
       = [slab_cell (- 5) [232, 19, 0, 0, 0, 0, 0, 0]]
   \<and> Cell_ptr (slab_cell (- 5) [232, 19, 0, 0, 0, 0, 0, 0]) = 4096 + 1000
   \<and> Load 4096 bad_offset_image = Undef
   \<and> Load 4096 bad_offset_image \<noteq> Ok None"
  by code_simp

end
